theory Spec2Isabelle
  imports Main "HOL-Library.Word" "HOL-Library.Sublist"
begin

section \<open>The XLIFF document model of xliff.go\<close>

text \<open>
  A Go \<^verbatim>\<open>string\<close> is a sequence of bytes, which is what \<^typ>\<open>string\<close> is here.
  A slice is a list; the nil slice and the empty slice are both \<^term>\<open>[]\<close> (the source
  only ever tests slices by \<^verbatim>\<open>len\<close> and \<^verbatim>\<open>range\<close>, and \<^verbatim>\<open>append\<close> to a nil slice gives a
  slice of length one, so a slice is nil at a return exactly when nothing was appended).
  A Go \<^verbatim>\<open>int\<close> is taken to be 64 bits wide, as on every 64-bit platform.
\<close>

type_synonym go_int = "64 word"

record Tool =
  ToolID :: string
  ToolName :: string
  ToolVersion :: string
  BuildNum :: string

record Header =
  Tool :: Tool

record TransUnit =
  ID :: string
  Source :: string
  Target :: string
  Note :: string

record Body =
  TransUnits :: "TransUnit list"

record File =
  Original :: string
  SourceLanguage :: string
  Datatype :: string
  TargetLanguage :: string
  Header :: Header
  Body :: Body

record Document =
  Version :: string
  Files :: "File list"

text \<open>The zero values Go gives to \<^verbatim>\<open>Header{}\<close>, \<^verbatim>\<open>Body{}\<close> and \<^verbatim>\<open>File{}\<close>.\<close>

definition zero_Tool :: Tool where
  "zero_Tool = \<lparr>ToolID = [], ToolName = [], ToolVersion = [], BuildNum = []\<rparr>"

definition zero_Header :: Header where
  "zero_Header = \<lparr>Tool = zero_Tool\<rparr>"

definition zero_Body :: Body where
  "zero_Body = \<lparr>TransUnits = []\<rparr>"

definition zero_File :: File where
  "zero_File = \<lparr>Original = [], SourceLanguage = [], Datatype = [], TargetLanguage = [],
     Header = zero_Header, Body = zero_Body\<rparr>"

subsection \<open>Validation error codes\<close>

text \<open>
  \<^verbatim>\<open>type ValidationErrorCode int\<close> with ten constants numbered by \<^verbatim>\<open>iota\<close>. The type is
  an integer type, so values other than the ten constants exist.
\<close>

type_synonym ValidationErrorCode = go_int

definition UnsupportedVersion :: ValidationErrorCode where "UnsupportedVersion = 0"
definition MissingOriginalAttribute :: ValidationErrorCode where "MissingOriginalAttribute = 1"
definition MissingSourceLanguage :: ValidationErrorCode where "MissingSourceLanguage = 2"
definition MissingTargetLanguage :: ValidationErrorCode where "MissingTargetLanguage = 3"
definition UnsupportedDatatype :: ValidationErrorCode where "UnsupportedDatatype = 4"
definition InconsistentSourceLanguage :: ValidationErrorCode where "InconsistentSourceLanguage = 5"
definition InconsistentTargetLanguage :: ValidationErrorCode where "InconsistentTargetLanguage = 6"
definition MissingTransUnitID :: ValidationErrorCode where "MissingTransUnitID = 7"
definition MissingTransUnitSource :: ValidationErrorCode where "MissingTransUnitSource = 8"
definition MissingTransUnitTarget :: ValidationErrorCode where "MissingTransUnitTarget = 9"

record ValidationError =
  Code :: ValidationErrorCode
  Message :: string

text \<open>
  \<^verbatim>\<open>ValidationError.Error\<close>: the \<^verbatim>\<open>switch\<close> overwrites the initial \<^verbatim>\<open>"Unknown"\<close> in the
  matching case and leaves it otherwise; the result is \<^verbatim>\<open>Sprintf("%s: %s", code, ve.Message)\<close>.
\<close>

definition Error :: "ValidationError \<Rightarrow> string" where
  "Error ve =
     (let code = ''Unknown'';
          code =
            (if Code ve = UnsupportedVersion then ''UnsupportedVersion''
             else if Code ve = MissingOriginalAttribute then ''MissingOriginalAttribute''
             else if Code ve = MissingSourceLanguage then ''MissingSourceLanguage''
             else if Code ve = MissingTargetLanguage then ''MissingTargetLanguage''
             else if Code ve = UnsupportedDatatype then ''UnsupportedDatatype''
             else if Code ve = InconsistentSourceLanguage then ''InconsistentSourceLanguage''
             else if Code ve = InconsistentTargetLanguage then ''InconsistentTargetLanguage''
             else if Code ve = MissingTransUnitID then ''MissingTransUnitID''
             else if Code ve = MissingTransUnitSource then ''MissingTransUnitSource''
             else if Code ve = MissingTransUnitTarget then ''MissingTransUnitTarget''
             else code)
      in code @ '': '' @ Message ve)"

subsection \<open>The constructor\<close>

definition NewDocument :: "string \<Rightarrow> string \<Rightarrow> Document" where
  "NewDocument sl tl' =
     (let file = \<lparr>Original = [], SourceLanguage = sl, Datatype = ''plaintext'',
                   TargetLanguage = tl', Header = zero_Header, Body = zero_Body\<rparr>
      in \<lparr>Version = ''1.2'', Files = [file]\<rparr>)"

subsection \<open>Decimal numbers: what \<^verbatim>\<open>strconv.Itoa\<close>, \<^verbatim>\<open>strconv.Atoi\<close> and \<^verbatim>\<open>%d\<close> do\<close>

text \<open>
  These are functions of Go's standard library, which the source calls. \<^verbatim>\<open>Itoa\<close> and the
  verb \<^verbatim>\<open>%d\<close> write an integer in base ten, most significant digit first, with a leading
  \<^verbatim>\<open>-\<close> for a negative one and no other sign, padding or leading zero.
\<close>

definition digit_char :: "nat \<Rightarrow> char" where
  "digit_char k = ''0123456789'' ! k"

fun format_nat :: "nat \<Rightarrow> string" where
  "format_nat n =
     (if n < 10 then [digit_char n] else format_nat (n div 10) @ [digit_char (n mod 10)])"

declare format_nat.simps [simp del]

definition format_int :: "int \<Rightarrow> string" where
  "format_int i = (if i < 0 then CHR ''-'' # format_nat (nat (- i)) else format_nat (nat i))"

definition Itoa :: "go_int \<Rightarrow> string" where
  "Itoa i = format_int (sint i)"

text \<open>
  \<^verbatim>\<open>Atoi\<close> accepts an optional \<^verbatim>\<open>+\<close> or \<^verbatim>\<open>-\<close> followed by at least one ASCII digit and
  nothing else (no space, no underscore, no base prefix), and fails when the number does
  not fit an \<^verbatim>\<open>int\<close> (below \<open>- 2^63\<close> or above \<open>2^63 - 1\<close>). Its short path for strings
  of fewer than 19 bytes and its general path through \<^verbatim>\<open>ParseInt(s, 10, 0)\<close> compute the
  same result and are one function here. The caller only tests the error against nil,
  so a syntax error and a range error are both \<^term>\<open>None\<close>.
\<close>

definition is_digit :: "char \<Rightarrow> bool" where
  "is_digit c = (48 \<le> (of_char c :: nat) \<and> (of_char c :: nat) \<le> 57)"

definition digit_val :: "char \<Rightarrow> nat" where
  "digit_val c = of_char c - 48"

fun parse_digits :: "nat \<Rightarrow> string \<Rightarrow> nat option" where
  "parse_digits n [] = Some n"
| "parse_digits n (ch # s) =
     (if is_digit ch then parse_digits (n * 10 + digit_val ch) s else None)"

definition Atoi :: "string \<Rightarrow> go_int option" where
  "Atoi s =
     (case s of
        [] \<Rightarrow> None
      | c # cs \<Rightarrow>
          (let neg = (c = CHR ''-'');
               s' = (if c = CHR ''+'' \<or> c = CHR ''-'' then cs else s)
           in if s' = [] then None
              else (case parse_digits 0 s' of
                      None \<Rightarrow> None
                    | Some un \<Rightarrow>
                        if \<not> neg \<and> un \<ge> 2 ^ 63 then None
                        else if neg \<and> un > 2 ^ 63 then None
                        else Some (if neg then - word_of_nat un else word_of_nat un))))"

section \<open>Validate\<close>

text \<open>
  A run-time panic of Go is a value. The source itself can raise the panic of an index
  check, which reports the index (an \<^verbatim>\<open>int\<close>) and the length, and the panic of a call
  of a nil function; a function passed to \<^verbatim>\<open>AddTransUnit\<close> can raise a panic of its own.
\<close>

datatype panic = IndexOutOfRange int nat | NilDereference | PanicValue string

definition index :: "'a list \<Rightarrow> int \<Rightarrow> panic + 'a" where
  "index xs i =
     (if 0 \<le> i \<and> i < int (length xs) then Inr (xs ! nat i)
      else Inl (IndexOutOfRange i (length xs)))"

text \<open>
  The messages are built by \<^verbatim>\<open>fmt.Sprintf\<close>: \<^verbatim>\<open>%s\<close> copies the bytes of a string, \<^verbatim>\<open>%d\<close>
  prints an integer in decimal, and the rest of the format is copied. \<^verbatim>\<open>'%s'\<close> in a
  format is \<open>quoted\<close>.
\<close>

definition quoted :: "string \<Rightarrow> string" where
  "quoted s = [CHR 0x27] @ s @ [CHR 0x27]"

text \<open>
  The first loop, \<^verbatim>\<open>for idx, file := range d.Files\<close>, with the slice \<^verbatim>\<open>errors\<close> it appends
  to. The loop index is a natural number (a slice is never longer than an \<^verbatim>\<open>int\<close> can
  count) and \<^verbatim>\<open>%d\<close> prints it in decimal.
\<close>

fun validate_attributes :: "nat \<Rightarrow> File list \<Rightarrow> ValidationError list \<Rightarrow> ValidationError list" where
  "validate_attributes idx [] errors = errors"
| "validate_attributes idx (file # files) errors =
     (let errors =
            (if Original file = [] then
               errors @ [\<lparr>Code = MissingOriginalAttribute,
                 Message = ''File #'' @ format_nat idx @ '' is missing 'original' attribute''\<rparr>]
             else errors);
          errors =
            (if SourceLanguage file = [] then
               errors @ [\<lparr>Code = MissingSourceLanguage,
                 Message = ''File '' @ quoted (Original file)
                   @ '' is missing 'source-language' attribute''\<rparr>]
             else errors);
          errors =
            (if TargetLanguage file = [] then
               errors @ [\<lparr>Code = MissingTargetLanguage,
                 Message = ''File '' @ quoted (Original file)
                   @ '' is missing 'target-language' attribute''\<rparr>]
             else errors);
          errors =
            (if Datatype file \<noteq> ''plaintext'' then
               errors @ [\<lparr>Code = UnsupportedDatatype,
                 Message = ''File '' @ quoted (Original file)
                   @ '' has unsupported 'datatype' attribute with value ''
                   @ quoted (Datatype file)\<rparr>]
             else errors)
      in validate_attributes (Suc idx) files errors)"

text \<open>The second loop, after \<^verbatim>\<open>sourceLanguage\<close> and \<^verbatim>\<open>targetLanguage\<close> were read from \<^verbatim>\<open>d.Files[0]\<close>.\<close>

fun validate_languages ::
  "string \<Rightarrow> string \<Rightarrow> File list \<Rightarrow> ValidationError list \<Rightarrow> ValidationError list" where
  "validate_languages sourceLanguage targetLanguage [] errors = errors"
| "validate_languages sourceLanguage targetLanguage (file # files) errors =
     (let errors =
            (if SourceLanguage file \<noteq> sourceLanguage then
               errors @ [\<lparr>Code = InconsistentSourceLanguage,
                 Message = ''File '' @ quoted (Original file)
                   @ '' has inconsistent 'source-language' attribute ''
                   @ quoted (SourceLanguage file)\<rparr>]
             else errors);
          errors =
            (if TargetLanguage file \<noteq> targetLanguage then
               errors @ [\<lparr>Code = InconsistentTargetLanguage,
                 Message = ''File '' @ quoted (Original file)
                   @ '' has inconsistent 'target-language' attribute ''
                   @ quoted (TargetLanguage file)\<rparr>]
             else errors)
      in validate_languages sourceLanguage targetLanguage files errors)"

text \<open>The third loop: the inner loop over the trans-units of one file, and the outer one.\<close>

fun validate_trans_units ::
  "File \<Rightarrow> nat \<Rightarrow> TransUnit list \<Rightarrow> ValidationError list \<Rightarrow> ValidationError list" where
  "validate_trans_units file idx [] errors = errors"
| "validate_trans_units file idx (transUnit # transUnits) errors =
     (let errors =
            (if ID transUnit = [] then
               errors @ [\<lparr>Code = MissingTransUnitID,
                 Message = ''Translation unit #'' @ format_nat idx @ '' in file ''
                   @ quoted (Original file) @ '' is missing 'id' attribute''\<rparr>]
             else errors);
          errors =
            (if Source transUnit = [] then
               errors @ [\<lparr>Code = MissingTransUnitSource,
                 Message = ''Translation unit '' @ quoted (ID transUnit) @ '' in file ''
                   @ quoted (Original file) @ '' is missing 'source' attribute''\<rparr>]
             else errors);
          errors =
            (if Target transUnit = [] then
               errors @ [\<lparr>Code = MissingTransUnitTarget,
                 Message = ''Translation unit '' @ quoted (ID transUnit) @ '' in file ''
                   @ quoted (Original file) @ '' is missing 'target' attribute''\<rparr>]
             else errors)
      in validate_trans_units file (Suc idx) transUnits errors)"

fun validate_bodies :: "File list \<Rightarrow> ValidationError list \<Rightarrow> ValidationError list" where
  "validate_bodies [] errors = errors"
| "validate_bodies (file # files) errors =
     validate_bodies files (validate_trans_units file 0 (TransUnits (Body file)) errors)"

text \<open>
  \<^verbatim>\<open>Document.Validate\<close>. The receiver is a pointer; the function returns the document as
  the call leaves it next to its result. The result is the panic of \<^verbatim>\<open>d.Files[0]\<close> or the
  slice \<^verbatim>\<open>errors\<close>.
\<close>

definition Validate :: "Document \<Rightarrow> (panic + ValidationError list) \<times> Document" where
  "Validate d =
     (let errors = [];
          errors =
            (if Version d \<noteq> ''1.2'' then
               errors @ [\<lparr>Code = UnsupportedVersion,
                 Message = ''Version '' @ Version d @ '' is not supported''\<rparr>]
             else errors);
          errors = validate_attributes 0 (Files d) errors
      in case index (Files d) 0 of
           Inl p \<Rightarrow> (Inl p, d)
         | Inr file0 \<Rightarrow>
             (let sourceLanguage = SourceLanguage file0;
                  targetLanguage = TargetLanguage file0;
                  errors = validate_languages sourceLanguage targetLanguage (Files d) errors;
                  errors = validate_bodies (Files d) errors
              in (Inr errors, d)))"

section \<open>IsComplete and File\<close>

text \<open>
  \<^verbatim>\<open>Document.IsComplete\<close>: the inner loop answers \<^term>\<open>False\<close> where the source returns
  false from inside it and \<^term>\<open>True\<close> where it runs to its end; the outer loop goes on
  to the next file only in the second case.
\<close>

fun IsComplete_units :: "TransUnit list \<Rightarrow> bool" where
  "IsComplete_units [] = True"
| "IsComplete_units (transUnit # transUnits) =
     (if Source transUnit = [] \<or> Target transUnit = [] then False
      else IsComplete_units transUnits)"

fun IsComplete_files :: "File list \<Rightarrow> bool" where
  "IsComplete_files [] = True"
| "IsComplete_files (file # files) =
     (if IsComplete_units (TransUnits (Body file)) then IsComplete_files files else False)"

definition IsComplete :: "Document \<Rightarrow> bool \<times> Document" where
  "IsComplete d = (IsComplete_files (Files d), d)"

text \<open>\<^verbatim>\<open>Document.File\<close>: the loop over \<^verbatim>\<open>d.Files\<close>, and \<^verbatim>\<open>File{}, false\<close> after it.\<close>

fun File_loop :: "File list \<Rightarrow> string \<Rightarrow> File \<times> bool" where
  "File_loop [] original = (zero_File, False)"
| "File_loop (file # files) original =
     (if Original file = original then (file, True) else File_loop files original)"

definition File :: "Document \<Rightarrow> string \<Rightarrow> (File \<times> bool) \<times> Document" where
  "File d original = (File_loop (Files d) original, d)"

section \<open>AddTransUnit\<close>

text \<open>\<^verbatim>\<open>errors.New\<close> makes an error value that holds its text.\<close>

datatype error = errorString string

definition lastId :: "Document \<Rightarrow> string \<times> bool" where
  "lastId d =
     (if length (Files d) = 0 then ([], False)
      else
        (let file = Files d ! (length (Files d) - 1)
         in if length (TransUnits (Body file)) = 0 then (''-1'', True)
            else
              (let last' = TransUnits (Body file) ! (length (TransUnits (Body file)) - 1)
               in (ID last', True))))"

text \<open>
  An option is a value of type \<^verbatim>\<open>func(*TransUnit)\<close>: nil, or a function the caller wrote.
  Called with the pointer to the new trans-unit, such a function may write any field of
  the trans-unit and, holding the pointer \<^verbatim>\<open>d\<close>, any field of the Document; it may
  panic; it may not return. Here it is a function from the trans-unit and the Document
  it finds to what it leaves behind. (The function stands for what the closure does at
  the moment it is called; whatever else it reads is part of it.)
\<close>

datatype 'a outcome = Returns 'a Document | Panics panic Document | NoReturn

datatype opt = NilFunc | Func "TransUnit \<Rightarrow> Document \<Rightarrow> TransUnit outcome"

definition WithNote :: "string \<Rightarrow> opt" where
  "WithNote note = Func (\<lambda>t d. Returns (t\<lparr>Note := note\<rparr>) d)"

definition WithTarget :: "string \<Rightarrow> opt" where
  "WithTarget target = Func (\<lambda>t d. Returns (t\<lparr>Target := target\<rparr>) d)"

text \<open>
  The loop \<^verbatim>\<open>for _, opt := range opts { opt(&tu) }\<close>: each option runs on what the
  options before it left; a panic or an option that does not return ends the loop.
\<close>

fun apply_opts :: "opt list \<Rightarrow> TransUnit \<Rightarrow> Document \<Rightarrow> TransUnit outcome" where
  "apply_opts [] tu d = Returns tu d"
| "apply_opts (opt # opts) tu d =
     (case opt of
        NilFunc \<Rightarrow> Panics NilDereference d
      | Func f \<Rightarrow>
          (case f tu d of
             Returns tu' d' \<Rightarrow> apply_opts opts tu' d'
           | Panics p d' \<Rightarrow> Panics p d'
           | NoReturn \<Rightarrow> NoReturn))"

text \<open>
  \<^verbatim>\<open>Document.AddTransUnit\<close>. The call returns its error (\<^term>\<open>None\<close> for nil) and the
  Document as it leaves it, or panics, or does not return. The reads of
  \<^verbatim>\<open>d.Files[len(d.Files)-1]\<close> and of the last trans-unit in \<^verbatim>\<open>lastId\<close> come after a test
  of the length and are in range. The read of \<^verbatim>\<open>d.Files[len(d.Files)-1]\<close> after the
  options is a read of the Document as the options left it, with its own index check.
  \<^verbatim>\<open>fmt.Sprint\<close> of two strings puts no space between them. \<^verbatim>\<open>numId + 1\<close> is an addition
  of \<^verbatim>\<open>int\<close>s and wraps around. The receiver is not nil, and no two slices of the Document
  share memory (as in every Document that this package constructs or decodes), so that
  \<^verbatim>\<open>append\<close> changes the one slice it is assigned to.
\<close>

definition AddTransUnit :: "Document \<Rightarrow> string \<Rightarrow> opt list \<Rightarrow> error option outcome" where
  "AddTransUnit d source opts =
     (if length (Files d) = 0 then
        Returns (Some (errorString ''document does not contain a file'')) d
      else
        (case lastId d of
           (lastId', ok) \<Rightarrow>
             if \<not> ok then Returns (Some (errorString ''could not parse last TransUnit ID'')) d
             else
               (case Atoi lastId' of
                  None \<Rightarrow>
                    Returns
                      (Some (errorString (''last TransUnit ID is not a number:'' @ lastId'))) d
                | Some numId \<Rightarrow>
                    (let tu = \<lparr>ID = Itoa (numId + 1), Source = source, Target = [], Note = []\<rparr>
                     in case apply_opts opts tu d of
                          NoReturn \<Rightarrow> NoReturn
                        | Panics p d' \<Rightarrow> Panics p d'
                        | Returns tu d' \<Rightarrow>
                            (let i = int (length (Files d')) - 1
                             in case index (Files d') i of
                                  Inl p \<Rightarrow> Panics p d'
                                | Inr file \<Rightarrow>
                                    (let file = file\<lparr>Body := (Body file)\<lparr>TransUnits :=
                                           TransUnits (Body file) @ [tu]\<rparr>\<rparr>
                                     in Returns None
                                          (d'\<lparr>Files := (Files d')[nat i := file]\<rparr>)))))))"

section \<open>ToFile\<close>

text \<open>
  \<^verbatim>\<open>Document.ToFile\<close> wraps the Document in a \<^verbatim>\<open>DocumentExport\<close>, hands it to
  \<^verbatim>\<open>xml.Marshal\<close>, puts \<^verbatim>\<open>xml.Header\<close> in front and hands the bytes to \<^verbatim>\<open>ioutil.WriteFile\<close>.
  \<^verbatim>\<open>xml.Marshal\<close> and what it calls are functions of Go's standard library; what follows is
  what they do on a \<^verbatim>\<open>DocumentExport\<close>.

  \<^verbatim>\<open>utf8.DecodeRune\<close> reads one UTF-8 sequence at the head of a string and gives the code
  point and the number of bytes read; at a byte that starts no well-formed sequence
  (overlong and surrogate encodings included) it gives \<^verbatim>\<open>RuneError\<close> and width 1.
\<close>

definition RuneError :: nat where
  "RuneError = 0xFFFD"

definition DecodeRune :: "string \<Rightarrow> nat \<times> nat" where
  "DecodeRune p =
     (case map of_char p of
        [] \<Rightarrow> (RuneError, 0)
      | p0 # rest \<Rightarrow>
          if p0 < 0x80 then (p0, 1)
          else if p0 < 0xC2 \<or> 0xF4 < p0 then (RuneError, 1)
          else
            (let sz = (if p0 < 0xE0 then 2 else if p0 < 0xF0 then 3 else 4 :: nat);
                 lo = (if p0 = 0xE0 then 0xA0 else if p0 = 0xF0 then 0x90 else 0x80 :: nat);
                 hi = (if p0 = 0xED then 0x9F else if p0 = 0xF4 then 0x8F else 0xBF :: nat)
             in if length p < sz then (RuneError, 1)
                else
                  (let b1 = rest ! 0
                   in if b1 < lo \<or> hi < b1 then (RuneError, 1)
                      else if sz \<le> 2 then ((p0 mod 32) * 64 + b1 mod 64, 2)
                      else
                        (let b2 = rest ! 1
                         in if b2 < 0x80 \<or> 0xBF < b2 then (RuneError, 1)
                            else if sz \<le> 3 then
                              ((p0 mod 16) * 4096 + (b1 mod 64) * 64 + b2 mod 64, 3)
                            else
                              (let b3 = rest ! 2
                               in if b3 < 0x80 \<or> 0xBF < b3 then (RuneError, 1)
                                  else
                                    ((p0 mod 8) * 262144 + (b1 mod 64) * 4096
                                       + (b2 mod 64) * 64 + b3 mod 64, 4))))))"

text \<open>
  \<^verbatim>\<open>EscapeString\<close> writes a string as XML text: the five characters of markup and tab,
  newline and carriage return as character references, the replacement character for a
  byte that is not UTF-8 or a code point that is not an XML character, and every other
  sequence as it is.
\<close>

definition isInCharacterRange :: "nat \<Rightarrow> bool" where
  "isInCharacterRange r =
     (r = 0x09 \<or> r = 0x0A \<or> r = 0x0D \<or> (0x20 \<le> r \<and> r \<le> 0xD7FF)
      \<or> (0xE000 \<le> r \<and> r \<le> 0xFFFD) \<or> (0x10000 \<le> r \<and> r \<le> 0x10FFFF))"

definition escFFFD :: string where
  "escFFFD = [char_of (0xEF :: nat), char_of (0xBF :: nat), char_of (0xBD :: nat)]"

definition escaped_rune :: "string \<Rightarrow> string" where
  "escaped_rune s =
     (case DecodeRune s of
        (r, width) \<Rightarrow>
          if r = 0x22 then ''&#34;''
          else if r = 0x27 then ''&#39;''
          else if r = 0x26 then ''&amp;''
          else if r = 0x3C then ''&lt;''
          else if r = 0x3E then ''&gt;''
          else if r = 0x09 then ''&#x9;''
          else if r = 0x0A then ''&#xA;''
          else if r = 0x0D then ''&#xD;''
          else if \<not> isInCharacterRange r \<or> (r = 0xFFFD \<and> width = 1) then escFFFD
          else take width s)"

function EscapeString :: "string \<Rightarrow> string" where
  "EscapeString s =
     (if s = [] then [] else escaped_rune s @ EscapeString (drop (snd (DecodeRune s)) s))"
  by pat_completeness auto
termination
proof (relation "measure length")
  show "wf (measure length)" by simp
next
  fix s :: string
  assume "s \<noteq> []"
  then have "0 < snd (DecodeRune s)"
    by (cases s) (simp_all add: DecodeRune_def Let_def)
  then show "(drop (snd (DecodeRune s)) s, s) \<in> measure length"
    using \<open>s \<noteq> []\<close> by simp
qed

declare EscapeString.simps [simp del]

text \<open>
  \<^verbatim>\<open>xml.Marshal\<close> writes a struct as an element named by its \<^verbatim>\<open>XMLName\<close> tag or by the tag
  of the field that holds it: the fields tagged \<^verbatim>\<open>attr\<close> as attributes, in the order of
  the fields (those of the embedded \<^verbatim>\<open>*Document\<close> first), then the other fields as child
  elements in the order of the fields, a slice as one element for each of its members, a
  string as escaped text, and an end tag; an empty string is written as an empty
  attribute or an empty element. Its error result is for a value of a type it cannot
  write (a channel, a function, a map) and for a malformed tag; a \<^verbatim>\<open>DocumentExport\<close> is
  strings, structs and slices with well-formed tags, so that on this type it has no
  error to return.
\<close>

record DocumentExport =
  Document :: Document
  Xmlns :: string
  Xsi :: string
  SchemaLocation :: string

definition attr :: "string \<Rightarrow> string \<Rightarrow> string" where
  \<open>attr name v = '' '' @ name @ ''="'' @ EscapeString v @ ''"''\<close>

definition element :: "string \<Rightarrow> string \<Rightarrow> string \<Rightarrow> string" where
  "element name attrs content = ''<'' @ name @ attrs @ ''>'' @ content @ ''</'' @ name @ ''>''"

definition marshal_Tool :: "Tool \<Rightarrow> string" where
  "marshal_Tool t =
     element ''tool''
       (attr ''tool-id'' (ToolID t) @ attr ''tool-name'' (ToolName t)
        @ attr ''tool-version'' (ToolVersion t) @ attr ''build-num'' (BuildNum t))
       []"

definition marshal_Header :: "Header \<Rightarrow> string" where
  "marshal_Header h = element ''header'' [] (marshal_Tool (Tool h))"

definition marshal_TransUnit :: "TransUnit \<Rightarrow> string" where
  "marshal_TransUnit tu =
     element ''trans-unit'' (attr ''id'' (ID tu))
       (element ''source'' [] (EscapeString (Source tu))
        @ element ''target'' [] (EscapeString (Target tu))
        @ element ''note'' [] (EscapeString (Note tu)))"

definition marshal_Body :: "Body \<Rightarrow> string" where
  "marshal_Body b = element ''body'' [] (concat (map marshal_TransUnit (TransUnits b)))"

definition marshal_File :: "File \<Rightarrow> string" where
  "marshal_File f =
     element ''file''
       (attr ''original'' (Original f) @ attr ''source-language'' (SourceLanguage f)
        @ attr ''datatype'' (Datatype f) @ attr ''target-language'' (TargetLanguage f))
       (marshal_Header (Header f) @ marshal_Body (Body f))"

definition Marshal :: "DocumentExport \<Rightarrow> error + string" where
  "Marshal v =
     Inr (element ''xliff''
       (attr ''version'' (Version (Document v)) @ attr ''xmlns'' (Xmlns v)
        @ attr ''xmlns:xsi'' (Xsi v) @ attr ''xsi:schemaLocation'' (SchemaLocation v))
       (concat (map marshal_File (Files (Document v)))))"

text \<open>
  \<^verbatim>\<open>xml.Header\<close>, and \<^verbatim>\<open>ToFile\<close>. \<^verbatim>\<open>ioutil.WriteFile\<close> is the file system of the caller: a
  parameter here, which answers the path, the bytes and the permission bits (octal 0664)
  with its error. The Document is only read.
\<close>

definition xml_Header :: string where
  \<open>xml_Header = ''<?xml version="1.0" encoding="UTF-8"?>'' @ [char_of (10 :: nat)]\<close>

definition ToFile ::
  "(string \<Rightarrow> string \<Rightarrow> nat \<Rightarrow> error option) \<Rightarrow> Document \<Rightarrow> string \<Rightarrow> error option \<times> Document" where
  "ToFile WriteFile d path =
     (let xliff = \<lparr>Document = d,
            Xmlns = ''urn:oasis:names:tc:xliff:document:1.2'',
            Xsi = ''http://www.w3.org/2001/XMLSchema-instance'',
            SchemaLocation = ''urn:oasis:names:tc:xliff:document:1.2 http://docs.oasis-open.org/xliff/v1.2/os/xliff-core-1.2-strict.xsd''\<rparr>
      in case Marshal xliff of
           Inl err \<Rightarrow> (Some err, d)
         | Inr data \<Rightarrow>
             (let data = xml_Header @ data
              in case WriteFile path data (6 * 8 ^ 2 + 6 * 8 + 4) of
                   Some err \<Rightarrow> (Some err, d)
                 | None \<Rightarrow> (None, d)))"

section \<open>The check battery, as the specification lists it\<close>

text \<open>
  The specification describes the result of \<^verbatim>\<open>Validate\<close> as a concatenation: the
  violations of the version check, then those of the attribute checks of each file in
  file order, then those of the language-consistency checks of each file against the
  first file, then those of the trans-unit checks of each trans-unit, file by file. The
  definitions below say that, one check after the other, with no accumulator and no loop.
  The text of a message is not fixed by the specification and is the one of the source.
\<close>

definition version_check :: "Document \<Rightarrow> ValidationError list" where
  "version_check d =
     (if Version d \<noteq> ''1.2'' then
        [\<lparr>Code = UnsupportedVersion, Message = ''Version '' @ Version d @ '' is not supported''\<rparr>]
      else [])"

definition attribute_checks :: "nat \<Rightarrow> File \<Rightarrow> ValidationError list" where
  "attribute_checks idx file =
     (if Original file = [] then
        [\<lparr>Code = MissingOriginalAttribute,
          Message = ''File #'' @ format_nat idx @ '' is missing 'original' attribute''\<rparr>]
      else [])
     @ (if SourceLanguage file = [] then
        [\<lparr>Code = MissingSourceLanguage,
          Message = ''File '' @ quoted (Original file)
            @ '' is missing 'source-language' attribute''\<rparr>]
      else [])
     @ (if TargetLanguage file = [] then
        [\<lparr>Code = MissingTargetLanguage,
          Message = ''File '' @ quoted (Original file)
            @ '' is missing 'target-language' attribute''\<rparr>]
      else [])
     @ (if Datatype file \<noteq> ''plaintext'' then
        [\<lparr>Code = UnsupportedDatatype,
          Message = ''File '' @ quoted (Original file)
            @ '' has unsupported 'datatype' attribute with value '' @ quoted (Datatype file)\<rparr>]
      else [])"

definition language_checks :: "File \<Rightarrow> File \<Rightarrow> ValidationError list" where
  "language_checks file0 file =
     (if SourceLanguage file \<noteq> SourceLanguage file0 then
        [\<lparr>Code = InconsistentSourceLanguage,
          Message = ''File '' @ quoted (Original file)
            @ '' has inconsistent 'source-language' attribute '' @ quoted (SourceLanguage file)\<rparr>]
      else [])
     @ (if TargetLanguage file \<noteq> TargetLanguage file0 then
        [\<lparr>Code = InconsistentTargetLanguage,
          Message = ''File '' @ quoted (Original file)
            @ '' has inconsistent 'target-language' attribute '' @ quoted (TargetLanguage file)\<rparr>]
      else [])"

definition trans_unit_checks :: "File \<Rightarrow> nat \<Rightarrow> TransUnit \<Rightarrow> ValidationError list" where
  "trans_unit_checks file idx transUnit =
     (if ID transUnit = [] then
        [\<lparr>Code = MissingTransUnitID,
          Message = ''Translation unit #'' @ format_nat idx @ '' in file ''
            @ quoted (Original file) @ '' is missing 'id' attribute''\<rparr>]
      else [])
     @ (if Source transUnit = [] then
        [\<lparr>Code = MissingTransUnitSource,
          Message = ''Translation unit '' @ quoted (ID transUnit) @ '' in file ''
            @ quoted (Original file) @ '' is missing 'source' attribute''\<rparr>]
      else [])
     @ (if Target transUnit = [] then
        [\<lparr>Code = MissingTransUnitTarget,
          Message = ''Translation unit '' @ quoted (ID transUnit) @ '' in file ''
            @ quoted (Original file) @ '' is missing 'target' attribute''\<rparr>]
      else [])"

definition body_checks :: "File \<Rightarrow> ValidationError list" where
  "body_checks file =
     concat (map (\<lambda>(idx, transUnit). trans_unit_checks file idx transUnit)
       (enumerate 0 (TransUnits (Body file))))"

definition check_battery :: "Document \<Rightarrow> ValidationError list" where
  "check_battery d =
     version_check d
     @ concat (map (\<lambda>(idx, file). attribute_checks idx file) (enumerate 0 (Files d)))
     @ (case Files d of [] \<Rightarrow> [] | file0 # _ \<Rightarrow> concat (map (language_checks file0) (Files d)))
     @ concat (map body_checks (Files d))"

section \<open>Notions used to state the properties of AddTransUnit\<close>

text \<open>A File with one more TransUnit at the end of its Body, and nothing else changed.\<close>

definition append_unit :: "File \<Rightarrow> TransUnit \<Rightarrow> File" where
  "append_unit file tu = file\<lparr>Body := (Body file)\<lparr>TransUnits := TransUnits (Body file) @ [tu]\<rparr>\<rparr>"

text \<open>
  An option that does what \<^const>\<open>WithNote\<close> and \<^const>\<open>WithTarget\<close> do and no more: it is
  not nil, it returns whatever it is called with, and it leaves the Document and the id
  and the source of the trans-unit as they are.
\<close>

definition keeps_id_source_and_document :: "opt \<Rightarrow> bool" where
  "keeps_id_source_and_document opt =
     (case opt of
        NilFunc \<Rightarrow> False
      | Func f \<Rightarrow>
          (\<forall>t d. \<exists>t'. f t d = Returns t' d \<and> ID t' = ID t \<and> Source t' = Source t))"

text \<open>
  What it is for a string to be parseable as an integer that fits an \<^verbatim>\<open>int\<close>: an optional
  sign, then at least one decimal digit and nothing else, and the number they write in
  base ten lies between \<open>- 2^63\<close> and \<open>2^63 - 1\<close>.
\<close>

definition split_sign :: "string \<Rightarrow> bool \<times> string" where
  "split_sign s =
     (case s of
        [] \<Rightarrow> (False, [])
      | c # cs \<Rightarrow> if c = CHR ''-'' then (True, cs) else if c = CHR ''+'' then (False, cs)
          else (False, s))"

definition decimal_value :: "string \<Rightarrow> nat" where
  "decimal_value ds = foldl (\<lambda>n ch. n * 10 + digit_val ch) 0 ds"

definition int_of_text :: "string \<Rightarrow> int option" where
  "int_of_text s =
     (case split_sign s of
        (neg, ds) \<Rightarrow>
          if ds \<noteq> [] \<and> list_all is_digit ds then
            Some (if neg then - int (decimal_value ds) else int (decimal_value ds))
          else None)"

definition fits_int :: "int \<Rightarrow> bool" where
  "fits_int v = (- (2 ^ 63) \<le> v \<and> v < 2 ^ 63)"

definition parseable_as_int :: "string \<Rightarrow> bool" where
  "parseable_as_int s = (case int_of_text s of None \<Rightarrow> False | Some v \<Rightarrow> fits_int v)"

text \<open>Past the three error returns, the call is the options and then the append.\<close>

definition finish :: "TransUnit outcome \<Rightarrow> error option outcome" where
  "finish r =
     (case r of
        NoReturn \<Rightarrow> NoReturn
      | Panics p d' \<Rightarrow> Panics p d'
      | Returns tu d' \<Rightarrow>
          (if Files d' = [] then Panics (IndexOutOfRange (- 1) 0) d'
           else Returns None
                  (d'\<lparr>Files := butlast (Files d') @ [append_unit (last (Files d')) tu]\<rparr>)))"

text \<open>
  A byte that \<^const>\<open>EscapeString\<close> copies: printable ASCII other than the five characters
  of markup.
\<close>

definition plain_byte :: "char \<Rightarrow> bool" where
  "plain_byte c =
     (0x20 \<le> (of_char c :: nat) \<and> (of_char c :: nat) < 0x80
      \<and> (of_char c :: nat) \<notin> set [0x22, 0x27, 0x26, 0x3C, 0x3E])"

section \<open>Example documents\<close>

text \<open>
  A Document of two Files that violates each of the ten checks once, the Document with
  no File (what decoding a root element without \<^verbatim>\<open>file\<close> children gives), and two
  well-formed Documents, one fully translated and one with an empty target.
\<close>

definition doc_with_errors :: Document where
  "doc_with_errors =
     \<lparr>Version = ''1.1'',
      Files =
        [\<lparr>Original = ''a.txt'', SourceLanguage = ''de'', Datatype = ''html'',
          TargetLanguage = ''en'', Header = zero_Header,
          Body = \<lparr>TransUnits = [\<lparr>ID = [], Source = [], Target = [], Note = []\<rparr>]\<rparr>\<rparr>,
         \<lparr>Original = [], SourceLanguage = [], Datatype = ''plaintext'',
          TargetLanguage = [], Header = zero_Header, Body = zero_Body\<rparr>]\<rparr>"

definition doc_without_files :: Document where
  "doc_without_files = \<lparr>Version = ''1.2'', Files = []\<rparr>"

definition doc_complete :: Document where
  "doc_complete =
     \<lparr>Version = ''1.2'',
      Files =
        [\<lparr>Original = ''One.strings'', SourceLanguage = ''de'', Datatype = ''plaintext'',
          TargetLanguage = ''en'', Header = zero_Header,
          Body = \<lparr>TransUnits =
            [\<lparr>ID = ''0'', Source = ''Hallo Welt'', Target = ''Hello World'', Note = []\<rparr>]\<rparr>\<rparr>,
         \<lparr>Original = ''Two.strings'', SourceLanguage = ''de'', Datatype = ''plaintext'',
          TargetLanguage = ''en'', Header = zero_Header,
          Body = \<lparr>TransUnits =
            [\<lparr>ID = ''0'', Source = ''Ja'', Target = ''Yes'', Note = ''short''\<rparr>,
             \<lparr>ID = ''1'', Source = ''Nein'', Target = ''No'', Note = []\<rparr>]\<rparr>\<rparr>]\<rparr>"

definition doc_incomplete :: Document where
  "doc_incomplete =
     \<lparr>Version = ''1.2'',
      Files =
        [\<lparr>Original = ''One.strings'', SourceLanguage = ''de'', Datatype = ''plaintext'',
          TargetLanguage = ''en'', Header = zero_Header,
          Body = \<lparr>TransUnits =
            [\<lparr>ID = ''0'', Source = ''Hallo Welt'', Target = ''Hello World'', Note = []\<rparr>,
             \<lparr>ID = ''1'', Source = ''Auf Wiedersehen'', Target = [], Note = []\<rparr>]\<rparr>\<rparr>]\<rparr>"

text \<open>
  The Document that \<^const>\<open>NewDocument\<close> builds, with the given TransUnits in the Body of
  its File; the same with one TransUnit of a given id; and an option a caller may write,
  \<^verbatim>\<open>func(t *TransUnit) { t.ID = s }\<close>.
\<close>

definition document_with :: "string \<Rightarrow> string \<Rightarrow> TransUnit list \<Rightarrow> Document" where
  "document_with sl tl' transUnits =
     \<lparr>Version = ''1.2'',
      Files = [\<lparr>Original = [], SourceLanguage = sl, Datatype = ''plaintext'',
        TargetLanguage = tl', Header = zero_Header, Body = \<lparr>TransUnits = transUnits\<rparr>\<rparr>]\<rparr>"

definition doc_last_id :: "string \<Rightarrow> Document" where
  "doc_last_id s = document_with ''de'' ''en'' [\<lparr>ID = s, Source = ''x'', Target = ''y'', Note = []\<rparr>]"

definition set_id_option :: "string \<Rightarrow> opt" where
  "set_id_option s = Func (\<lambda>t d. Returns (t\<lparr>ID := s\<rparr>) d)"

text \<open>
  Three more options a caller may write: one that appends an empty File to the Document,
  \<^verbatim>\<open>func(t *TransUnit) { d.Files = append(d.Files, File{}) }\<close>, one that panics,
  \<^verbatim>\<open>func(t *TransUnit) { panic("stop") }\<close>, and one that does not return,
  \<^verbatim>\<open>func(t *TransUnit) { for {} }\<close>.
\<close>

definition add_file_option :: opt where
  "add_file_option = Func (\<lambda>t d. Returns t (d\<lparr>Files := Files d @ [zero_File]\<rparr>))"

definition panic_option :: opt where
  "panic_option = Func (\<lambda>t d. Panics (PanicValue ''stop'') d)"

definition loop_option :: opt where
  "loop_option = Func (\<lambda>t d. NoReturn)"

text \<open>
  The bytes that \<^verbatim>\<open>xml.Marshal\<close> writes for the Document that \<^const>\<open>NewDocument\<close> builds,
  wrapped as \<^const>\<open>ToFile\<close> wraps it.
\<close>

definition fresh_xliff :: "string \<Rightarrow> string \<Rightarrow> string" where
  \<open>fresh_xliff sl tl' =
     ''<xliff version="1.2" xmlns="urn:oasis:names:tc:xliff:document:1.2" xmlns:xsi="http://www.w3.org/2001/XMLSchema-instance" xsi:schemaLocation="urn:oasis:names:tc:xliff:document:1.2 http://docs.oasis-open.org/xliff/v1.2/os/xliff-core-1.2-strict.xsd">''
     @ ''<file original="" source-language="'' @ EscapeString sl
     @ ''" datatype="plaintext" target-language="'' @ EscapeString tl' @ ''">''
     @ ''<header><tool tool-id="" tool-name="" tool-version="" build-num=""></tool></header>''
     @ ''<body></body></file></xliff>''\<close>

section \<open>Properties\<close>

lemmas code_defs =
  UnsupportedVersion_def MissingOriginalAttribute_def MissingSourceLanguage_def
  MissingTargetLanguage_def UnsupportedDatatype_def InconsistentSourceLanguage_def
  InconsistentTargetLanguage_def MissingTransUnitID_def MissingTransUnitSource_def
  MissingTransUnitTarget_def

subsection \<open>The loops of Validate against the check battery\<close>

lemma validate_attributes_eq:
  "validate_attributes idx files errors =
     errors @ concat (map (\<lambda>(idx, file). attribute_checks idx file) (enumerate idx files))"
  by (induction files arbitrary: idx errors) (simp_all add: Let_def attribute_checks_def)

lemma validate_languages_eq:
  "validate_languages (SourceLanguage file0) (TargetLanguage file0) files errors =
     errors @ concat (map (language_checks file0) files)"
  by (induction files arbitrary: errors) (simp_all add: Let_def language_checks_def)

lemma validate_trans_units_eq:
  "validate_trans_units file idx transUnits errors =
     errors @ concat (map (\<lambda>(idx, transUnit). trans_unit_checks file idx transUnit)
       (enumerate idx transUnits))"
  by (induction transUnits arbitrary: idx errors) (simp_all add: Let_def trans_unit_checks_def)

lemma validate_bodies_eq:
  "validate_bodies files errors = errors @ concat (map body_checks files)"
  by (induction files arbitrary: errors) (simp_all add: validate_trans_units_eq body_checks_def)

lemma language_checks_self: "language_checks file file = []"
  by (simp add: language_checks_def)

lemma Validate_nonempty:
  "Files d \<noteq> [] \<Longrightarrow> Validate d = (Inr (check_battery d), d)"
  by (cases "Files d")
     (simp_all add: Validate_def index_def Let_def check_battery_def version_check_def
        validate_attributes_eq validate_languages_eq validate_bodies_eq language_checks_self)

lemma Validate_empty:
  "Files d = [] \<Longrightarrow> Validate d = (Inl (IndexOutOfRange 0 0), d)"
  by (simp add: Validate_def index_def Let_def)

subsection \<open>Decimal numbers\<close>

lemma digit_char_is_digit: "k < 10 \<Longrightarrow> is_digit (digit_char k) \<and> digit_val (digit_char k) = k"
proof -
  assume "k < 10"
  then have "k \<in> {0, 1, 2, 3, 4, 5, 6, 7, 8, 9}" by auto
  then show ?thesis
    by (auto simp add: digit_char_def is_digit_def digit_val_def)
qed

lemma parse_digits_snoc:
  "parse_digits n (s @ [ch]) =
     (case parse_digits n s of
        None \<Rightarrow> None
      | Some m \<Rightarrow> if is_digit ch then Some (m * 10 + digit_val ch) else None)"
  by (induction s arbitrary: n) simp_all

lemma parse_digits_format_nat: "parse_digits 0 (format_nat n) = Some n"
proof (induction n rule: format_nat.induct)
  case (1 n)
  show ?case
  proof (cases "n < 10")
    case True
    then show ?thesis
      by (simp add: format_nat.simps [of n] digit_char_is_digit)
  next
    case False
    then have "parse_digits 0 (format_nat (n div 10)) = Some (n div 10)"
      using "1" by simp
    moreover have "n mod 10 < 10" by simp
    ultimately show ?thesis using False
      by (simp add: format_nat.simps [of n] parse_digits_snoc digit_char_is_digit)
  qed
qed

lemma format_nat_hd: "\<exists>ch s. format_nat n = ch # s \<and> is_digit ch"
proof (induction n rule: format_nat.induct)
  case (1 n)
  show ?case
  proof (cases "n < 10")
    case True
    then show ?thesis
      by (simp add: format_nat.simps [of n] digit_char_is_digit)
  next
    case False
    then obtain ch s where "format_nat (n div 10) = ch # s" "is_digit ch"
      using "1" by blast
    then show ?thesis using False
      by (simp add: format_nat.simps [of n])
  qed
qed

lemma is_digit_not_sign: "is_digit ch \<Longrightarrow> ch \<noteq> CHR ''+'' \<and> ch \<noteq> CHR ''-''"
  by (auto simp add: is_digit_def)

lemma Atoi_format_int:
  assumes "- (2 ^ 63) \<le> i" and "i < 2 ^ 63"
  shows "Atoi (format_int i) = Some (word_of_int i)"
proof (cases "i < 0")
  case True
  have "nat (- i) \<le> 2 ^ 63" using assms(1) True by (simp add: nat_le_iff)
  moreover obtain ch s where "format_nat (nat (- i)) = ch # s" using format_nat_hd by blast
  moreover have "parse_digits 0 (format_nat (nat (- i))) = Some (nat (- i))"
    by (rule parse_digits_format_nat)
  moreover have "- (word_of_nat (nat (- i)) :: go_int) = word_of_int i"
    using True by simp
  ultimately show ?thesis using True
    by (simp add: Atoi_def format_int_def)
next
  case False
  obtain ch s where hd: "format_nat (nat i) = ch # s" "is_digit ch"
    using format_nat_hd by blast
  have "nat i < 2 ^ 63" using assms(2) False by (simp add: nat_less_iff)
  moreover have "parse_digits 0 (ch # s) = Some (nat i)"
    using parse_digits_format_nat [of "nat i"] hd(1) by simp
  moreover have "(word_of_nat (nat i) :: go_int) = word_of_int i"
    using False by simp
  ultimately show ?thesis using False hd is_digit_not_sign [OF hd(2)]
    by (simp add: Atoi_def format_int_def del: parse_digits.simps)
qed

lemma Atoi_Itoa: "Atoi (Itoa w) = Some w"
proof -
  have "- (2 ^ 63) \<le> sint w" "sint w < 2 ^ 63"
    using sint_ge [of w] sint_lt [of w] by simp_all
  then show ?thesis
    by (simp add: Itoa_def Atoi_format_int)
qed

lemma sint_word_of_int:
  "- (2 ^ 63) \<le> m \<Longrightarrow> m < 2 ^ 63 \<Longrightarrow> sint (word_of_int m :: go_int) = m"
  by (simp add: signed_of_int signed_take_bit_int_eq_self)

lemma Itoa_succ:
  assumes "- (2 ^ 63) \<le> n" and "n < 2 ^ 63 - 1"
  shows "Itoa (word_of_int n + 1) = format_int (n + 1)"
proof -
  have "sint (word_of_int n + 1 :: go_int) = n + 1"
    using sint_word_of_int [of "n + 1"] assms by simp
  then show ?thesis by (simp add: Itoa_def)
qed

subsection \<open>Parsing against the notion of an integer in range\<close>

lemma parse_digits_eq:
  "parse_digits n s =
     (if list_all is_digit s then Some (foldl (\<lambda>n ch. n * 10 + digit_val ch) n s) else None)"
  by (induction s arbitrary: n) simp_all

lemma Atoi_eq:
  "Atoi s =
     (case int_of_text s of
        None \<Rightarrow> None
      | Some v \<Rightarrow> if fits_int v then Some (word_of_int v) else None)"
proof (cases s)
  case Nil
  then show ?thesis by (simp add: Atoi_def int_of_text_def split_sign_def)
next
  case (Cons c cs)
  have neg: "(2 ^ 63 < un) = (\<not> fits_int (- int un))" for un :: nat
  proof -
    have "(2 ^ 63 < un) = ((2 :: int) ^ 63 < int un)"
      by (metis of_nat_less_iff of_nat_numeral of_nat_power)
    then show ?thesis by (simp add: fits_int_def not_le)
  qed
  have pos: "(2 ^ 63 \<le> un) = (\<not> fits_int (int un))" for un :: nat
  proof -
    have "(2 ^ 63 \<le> un) = ((2 :: int) ^ 63 \<le> int un)"
      by (metis of_nat_le_iff of_nat_numeral of_nat_power)
    then show ?thesis by (simp add: fits_int_def not_less)
  qed
  show ?thesis
    using Cons neg pos
    by (simp add: Atoi_def int_of_text_def split_sign_def decimal_value_def parse_digits_eq
        Let_def del: parse_digits.simps)
qed

lemma Atoi_None_iff: "(Atoi s = None) = (\<not> parseable_as_int s)"
  by (simp add: Atoi_eq parseable_as_int_def split: option.splits)

lemma format_nat_digits: "list_all is_digit (format_nat n)"
  using parse_digits_format_nat [of n] by (simp add: parse_digits_eq split: if_splits)

lemma decimal_value_format_nat: "decimal_value (format_nat n) = n"
  using parse_digits_format_nat [of n]
  by (simp add: parse_digits_eq decimal_value_def split: if_splits)

lemma int_of_text_format_int: "int_of_text (format_int n) = Some n"
proof (cases "n < 0")
  case True
  obtain ch s where "format_nat (nat (- n)) = ch # s" using format_nat_hd by blast
  then have "format_nat (nat (- n)) \<noteq> []" by simp
  then show ?thesis using True
    by (simp add: int_of_text_def format_int_def split_sign_def format_nat_digits
        decimal_value_format_nat)
next
  case False
  obtain ch s where hd: "format_nat (nat n) = ch # s" "is_digit ch"
    using format_nat_hd by blast
  have "split_sign (format_nat (nat n)) = (False, format_nat (nat n))"
    using hd is_digit_not_sign [OF hd(2)] by (simp add: split_sign_def)
  moreover have "format_nat (nat n) \<noteq> []" using hd by simp
  ultimately show ?thesis using False
    by (simp add: int_of_text_def format_int_def format_nat_digits decimal_value_format_nat)
qed

lemma parseable_format_int: "parseable_as_int (format_int n) = fits_int n"
  by (simp add: parseable_as_int_def int_of_text_format_int)

subsection \<open>The branches of AddTransUnit\<close>

lemma list_update_last: "xs \<noteq> [] \<Longrightarrow> xs[length xs - Suc 0 := x] = butlast xs @ [x]"
  by (induction xs rule: rev_induct) simp_all

lemma index_last: "xs \<noteq> [] \<Longrightarrow> index xs (int (length xs) - 1) = Inr (last xs)"
  by (cases xs rule: rev_cases) (simp_all add: index_def nth_append)

lemma index_none: "index [] (int (length ([] :: 'a list)) - 1) = Inl (IndexOutOfRange (- 1) 0)"
  by (simp add: index_def)

lemma list_update_last_int:
  assumes "xs \<noteq> []"
  shows "xs[nat (int (length xs) - 1) := x] = butlast xs @ [x]"
proof -
  have "nat (int (length xs) - 1) = length xs - Suc 0" by simp
  then show ?thesis using list_update_last [OF assms, of x] by (simp only:)
qed

lemma lastId_eq:
  "Files d \<noteq> [] \<Longrightarrow>
     lastId d =
       (if TransUnits (Body (last (Files d))) = [] then (''-1'', True)
        else (ID (last (TransUnits (Body (last (Files d))))), True))"
  by (simp add: lastId_def Let_def last_conv_nth)

lemma lastId_ok: "Files d \<noteq> [] \<Longrightarrow> snd (lastId d)"
  by (simp add: lastId_eq)

lemma AddTransUnit_no_files:
  "Files d = [] \<Longrightarrow>
     AddTransUnit d source opts =
       Returns (Some (errorString ''document does not contain a file'')) d"
  by (simp add: AddTransUnit_def)

lemma AddTransUnit_bad_id:
  "Files d \<noteq> [] \<Longrightarrow> lastId d = (s, ok) \<Longrightarrow> Atoi s = None \<Longrightarrow>
     AddTransUnit d source opts =
       Returns (Some (errorString (''last TransUnit ID is not a number:'' @ s))) d"
  using lastId_ok [of d] by (simp add: AddTransUnit_def)

lemma finish_simps:
  "finish NoReturn = NoReturn"
  "finish (Panics p d') = Panics p d'"
  by (simp_all add: finish_def)

lemma AddTransUnit_good_id:
  assumes "Files d \<noteq> []" and "lastId d = (s, ok)" and "Atoi s = Some numId"
  shows "AddTransUnit d source opts =
       finish (apply_opts opts
         \<lparr>ID = Itoa (numId + 1), Source = source, Target = [], Note = []\<rparr> d)"
proof -
  have append: "(case index (Files d') (int (length (Files d')) - 1) of
           Inl p \<Rightarrow> Panics p d'
         | Inr file \<Rightarrow>
             (let file = file\<lparr>Body := (Body file)\<lparr>TransUnits :=
                    TransUnits (Body file) @ [tu]\<rparr>\<rparr>
              in Returns None
                   (d'\<lparr>Files := (Files d')[nat (int (length (Files d')) - 1) := file]\<rparr>)))
        = finish (Returns tu d')" for tu d'
  proof (cases "Files d' = []")
    case True
    then show ?thesis by (simp add: finish_def index_def)
  next
    case False
    then show ?thesis
      by (simp add: finish_def index_last list_update_last_int append_unit_def Let_def)
  qed
  show ?thesis
    using assms lastId_ok [of d]
    by (simp add: AddTransUnit_def Let_def append finish_simps split: outcome.splits)
qed

lemma finish_not_error: "finish r \<noteq> Returns (Some e) d'"
  by (simp add: finish_def split: outcome.splits)

lemma apply_opts_keeps:
  "\<forall>opt \<in> set opts. keeps_id_source_and_document opt \<Longrightarrow>
     \<exists>tu'. apply_opts opts tu d = Returns tu' d \<and> ID tu' = ID tu \<and> Source tu' = Source tu"
proof (induction opts arbitrary: tu)
  case Nil
  then show ?case by simp
next
  case (Cons opt opts)
  then obtain f where f: "opt = Func f"
    by (cases opt) (simp_all add: keeps_id_source_and_document_def)
  then have "\<exists>t'. f tu d = Returns t' d \<and> ID t' = ID tu \<and> Source t' = Source tu"
    using Cons.prems by (simp add: keeps_id_source_and_document_def)
  then obtain t' where t': "f tu d = Returns t' d" "ID t' = ID tu" "Source t' = Source tu"
    by blast
  obtain tu' where "apply_opts opts t' d = Returns tu' d" "ID tu' = ID t'" "Source tu' = Source t'"
    using Cons.IH [of t'] Cons.prems by auto
  then show ?case using f t' by simp
qed

lemma Atoi_sentinel: "Atoi ''-1'' = Some (- 1)"
  by (simp add: Atoi_def is_digit_def digit_val_def)

lemma WithNote_keeps: "keeps_id_source_and_document (WithNote note)"
  by (simp add: keeps_id_source_and_document_def WithNote_def)

lemma WithTarget_keeps: "keeps_id_source_and_document (WithTarget target)"
  by (simp add: keeps_id_source_and_document_def WithTarget_def)

lemma next_id_general:
  assumes files: "Files d \<noteq> []"
    and last: "TransUnits (Body (last (Files d))) = [] \<and> n = - 1
       \<or> TransUnits (Body (last (Files d))) \<noteq> []
         \<and> ID (last (TransUnits (Body (last (Files d))))) = format_int n"
    and lo: "- (2 ^ 63) \<le> n" and hi: "n < 2 ^ 63 - 1"
  shows "AddTransUnit d source opts =
       finish (apply_opts opts
         \<lparr>ID = format_int (n + 1), Source = source, Target = [], Note = []\<rparr> d)"
proof -
  have "\<exists>s. lastId d = (s, True) \<and> Atoi s = Some (word_of_int n)"
  proof (cases "TransUnits (Body (last (Files d))) = []")
    case True
    then have "n = - 1" using last by simp
    then show ?thesis using True files by (simp add: lastId_eq Atoi_sentinel)
  next
    case False
    then have "ID (last (TransUnits (Body (last (Files d))))) = format_int n"
      using last by simp
    moreover have "Atoi (format_int n) = Some (word_of_int n)"
      using lo hi by (intro Atoi_format_int) simp_all
    ultimately show ?thesis using False files by (simp add: lastId_eq)
  qed
  then obtain s where "lastId d = (s, True)" "Atoi s = Some (word_of_int n)" by blast
  then show ?thesis
    using AddTransUnit_good_id [OF files, of s True "word_of_int n" source opts] Itoa_succ [OF lo hi]
    by simp
qed

lemma next_id_kept:
  assumes files: "Files d \<noteq> []"
    and last: "TransUnits (Body (last (Files d))) = [] \<and> n = - 1
       \<or> TransUnits (Body (last (Files d))) \<noteq> []
         \<and> ID (last (TransUnits (Body (last (Files d))))) = format_int n"
    and lo: "- (2 ^ 63) \<le> n" and hi: "n < 2 ^ 63 - 1"
    and opts: "\<forall>opt \<in> set opts. keeps_id_source_and_document opt"
  shows "\<exists>tu.
       apply_opts opts \<lparr>ID = format_int (n + 1), Source = source, Target = [], Note = []\<rparr> d
         = Returns tu d
       \<and> AddTransUnit d source opts =
           Returns None
             (d\<lparr>Files := butlast (Files d) @ [append_unit (last (Files d)) tu]\<rparr>)
       \<and> ID tu = format_int (n + 1) \<and> Source tu = source"
proof -
  obtain tu where tu:
    "apply_opts opts \<lparr>ID = format_int (n + 1), Source = source, Target = [], Note = []\<rparr> d
       = Returns tu d"
    "ID tu = format_int (n + 1)" "Source tu = source"
    using apply_opts_keeps [OF opts] by fastforce
  then show ?thesis
    using next_id_general [OF files last lo hi, of source opts] files
    by (simp add: finish_def)
qed

lemma AddTransUnit_fresh:
  "AddTransUnit (NewDocument sl tl') s1 [] =
     Returns None (document_with sl tl' [\<lparr>ID = ''0'', Source = s1, Target = [], Note = []\<rparr>])
   \<and> AddTransUnit (document_with sl tl' [\<lparr>ID = ''0'', Source = s1, Target = [], Note = []\<rparr>]) s2 [] =
     Returns None (document_with sl tl'
        [\<lparr>ID = ''0'', Source = s1, Target = [], Note = []\<rparr>,
         \<lparr>ID = ''1'', Source = s2, Target = [], Note = []\<rparr>])"
  by (simp add: NewDocument_def document_with_def zero_Body_def format_nat.simps
      digit_char_def AddTransUnit_def lastId_def Atoi_def is_digit_def digit_val_def Itoa_def
      format_int_def index_def)

subsection \<open>Encoding\<close>

lemma EscapeString_Nil: "EscapeString [] = []"
  by (simp add: EscapeString.simps)

lemma EscapeString_plain_Cons:
  "plain_byte c \<Longrightarrow> EscapeString (c # s) = c # EscapeString s"
  by (auto simp add: EscapeString.simps [of "c # s"] escaped_rune_def DecodeRune_def
      plain_byte_def isInCharacterRange_def)

lemma EscapeString_plain: "list_all plain_byte s \<Longrightarrow> EscapeString s = s"
  by (induction s) (simp_all add: EscapeString_Nil EscapeString_plain_Cons)

lemma Marshal_fresh:
  "Marshal \<lparr>Document = NewDocument sl tl',
      Xmlns = ''urn:oasis:names:tc:xliff:document:1.2'',
      Xsi = ''http://www.w3.org/2001/XMLSchema-instance'',
      SchemaLocation = ''urn:oasis:names:tc:xliff:document:1.2 http://docs.oasis-open.org/xliff/v1.2/os/xliff-core-1.2-strict.xsd''\<rparr>
   = Inr (fresh_xliff sl tl')"
  by (simp add: Marshal_def NewDocument_def marshal_File_def marshal_Header_def
      marshal_Tool_def marshal_Body_def zero_Header_def zero_Tool_def zero_Body_def
      element_def attr_def fresh_xliff_def EscapeString_Nil EscapeString_plain plain_byte_def)

lemma ToFile_fresh:
  "ToFile WriteFile (NewDocument sl tl') path =
     (WriteFile path (xml_Header @ fresh_xliff sl tl') 436, NewDocument sl tl')"
  by (simp add: ToFile_def Marshal_fresh Let_def split: option.splits)

lemma EscapeString_markup: "EscapeString ''a<b&c'' = ''a&lt;b&amp;c''"
  by (simp add: EscapeString.simps [of "_ # _"] EscapeString.simps [of "[]"] escaped_rune_def
      DecodeRune_def isInCharacterRange_def)

section \<open>The claims\<close>

subsection \<open>Validate\<close>

text \<open>
  Claim C1, as amended. For every Document with at least one File, \<^verbatim>\<open>Validate\<close> returns
  exactly the violations of the check battery, concatenated in check order: the version
  check, the attribute checks of each File in File order, the language-consistency checks
  of each File against the first File, and the checks of each TransUnit, File by File. It
  collects every violation, returns the empty sequence when there is none, and leaves the
  Document as it was.
\<close>

theorem Validate_is_check_battery:
  "Files d \<noteq> [] \<Longrightarrow>
     Validate d = (Inr (check_battery d), d)
     \<and> (check_battery d = [] \<longrightarrow> fst (Validate d) = Inr [])"
  by (simp add: Validate_nonempty)

text \<open>
  The theorem at a Document of two Files that violates each of the ten checks: the ten
  codes come out in check order.
\<close>

theorem Validate_is_check_battery_witness:
  "Files doc_with_errors \<noteq> []
   \<and> Validate doc_with_errors = (Inr (check_battery doc_with_errors), doc_with_errors)
   \<and> map Code (check_battery doc_with_errors)
       = [UnsupportedVersion, UnsupportedDatatype, MissingOriginalAttribute,
          MissingSourceLanguage, MissingTargetLanguage, InconsistentSourceLanguage,
          InconsistentTargetLanguage, MissingTransUnitID, MissingTransUnitSource,
          MissingTransUnitTarget]"
  using Validate_is_check_battery [of doc_with_errors]
  by (simp add: doc_with_errors_def check_battery_def version_check_def attribute_checks_def
      language_checks_def body_checks_def trans_unit_checks_def zero_Body_def enumerate_eq_zip)

text \<open>
  Claim C1 as it is written speaks of every Document. On the Document with version 1.2
  and no File the check battery has no violation to report, and \<^verbatim>\<open>Validate\<close> does not
  return: it panics at \<^verbatim>\<open>d.Files[0]\<close>.
\<close>

theorem Validate_all_documents_counterexample:
  "Validate doc_without_files = (Inl (IndexOutOfRange 0 0), doc_without_files)
   \<and> check_battery doc_without_files = []
   \<and> Validate doc_without_files \<noteq> (Inr (check_battery doc_without_files), doc_without_files)"
  by (simp add: doc_without_files_def Validate_def index_def Let_def check_battery_def
      version_check_def)

text \<open>
  Claim C4. \<^verbatim>\<open>Validate\<close> reads \<^verbatim>\<open>d.Files[0]\<close> whatever the Document is: with no File the
  read is out of range and the call panics with index 0 and length 0; with at least one
  File the read is in range (it gives the first File) and the call returns a sequence of
  errors, so the panic cannot happen. The read of \<^verbatim>\<open>d.Files[0]\<close> is the only index
  expression of \<^verbatim>\<open>Validate\<close>; its loops are \<^verbatim>\<open>range\<close> loops.
\<close>

theorem Validate_index:
  "(Files d = [] \<longrightarrow> Validate d = (Inl (IndexOutOfRange 0 0), d))
   \<and> (Files d \<noteq> [] \<longrightarrow>
        index (Files d) 0 = Inr (hd (Files d)) \<and> (\<exists>errors. Validate d = (Inr errors, d)))"
  by (cases "Files d") (simp_all add: Validate_empty Validate_nonempty index_def)

theorem Validate_index_witness:
  "Files doc_without_files = []
   \<and> Validate doc_without_files = (Inl (IndexOutOfRange 0 0), doc_without_files)
   \<and> Files doc_with_errors \<noteq> []
   \<and> index (Files doc_with_errors) 0 = Inr (hd (Files doc_with_errors))
   \<and> (\<exists>errors. Validate doc_with_errors = (Inr errors, doc_with_errors))"
  using Validate_index [of doc_without_files] Validate_index [of doc_with_errors]
  by (simp add: doc_without_files_def doc_with_errors_def)

subsection \<open>IsComplete\<close>

lemma IsComplete_units_iff:
  "IsComplete_units transUnits =
     (\<forall>transUnit \<in> set transUnits. Source transUnit \<noteq> [] \<and> Target transUnit \<noteq> [])"
  by (induction transUnits) auto

lemma IsComplete_files_iff:
  "IsComplete_files files =
     (\<forall>file \<in> set files. \<forall>transUnit \<in> set (TransUnits (Body file)).
        Source transUnit \<noteq> [] \<and> Target transUnit \<noteq> [])"
  by (induction files) (auto simp add: IsComplete_units_iff)

text \<open>
  Claim C6. \<^verbatim>\<open>IsComplete\<close> answers true exactly when every TransUnit of every File has a
  non-empty source and a non-empty target; in particular it answers true for a Document
  with no File and for one whose Files all have an empty Body. The Document is left as
  it was.
\<close>

theorem IsComplete_iff:
  "fst (IsComplete d) =
     (\<forall>file \<in> set (Files d). \<forall>transUnit \<in> set (TransUnits (Body file)).
        Source transUnit \<noteq> [] \<and> Target transUnit \<noteq> [])
   \<and> snd (IsComplete d) = d
   \<and> (Files d = [] \<longrightarrow> fst (IsComplete d))
   \<and> ((\<forall>file \<in> set (Files d). TransUnits (Body file) = []) \<longrightarrow> fst (IsComplete d))"
  by (auto simp add: IsComplete_def IsComplete_files_iff)

theorem IsComplete_iff_witness:
  "fst (IsComplete doc_complete)
   \<and> list_all (\<lambda>file. list_all (\<lambda>transUnit. Source transUnit \<noteq> [] \<and> Target transUnit \<noteq> [])
        (TransUnits (Body file))) (Files doc_complete)
   \<and> map (\<lambda>file. length (TransUnits (Body file))) (Files doc_complete) = [1, 2]
   \<and> \<not> fst (IsComplete doc_incomplete)
   \<and> Target (TransUnits (Body (Files doc_incomplete ! 0)) ! 1) = []
   \<and> Files doc_without_files = [] \<and> fst (IsComplete doc_without_files)
   \<and> map (\<lambda>file. TransUnits (Body file)) (Files (NewDocument ''de'' ''en'')) = [[]]
   \<and> fst (IsComplete (NewDocument ''de'' ''en''))"
  using IsComplete_iff [of doc_complete] IsComplete_iff [of doc_incomplete]
    IsComplete_iff [of doc_without_files] IsComplete_iff [of "NewDocument ''de'' ''en''"]
  by (simp add: doc_complete_def doc_incomplete_def doc_without_files_def NewDocument_def
      zero_Body_def)

subsection \<open>File\<close>

lemma File_loop_find:
  "File_loop files original =
     (case find (\<lambda>file. Original file = original) files of
        None \<Rightarrow> (zero_File, False)
      | Some file \<Rightarrow> (file, True))"
  by (induction files) simp_all

text \<open>
  Claim C9. \<^verbatim>\<open>d.File(original)\<close> returns the first File, in the order of the Document,
  whose \<^verbatim>\<open>original\<close> attribute is the given string, with \<^term>\<open>True\<close>; when no File has
  that attribute it returns the zero File with \<^term>\<open>False\<close>. It never fails and leaves
  the Document as it was.
\<close>

theorem File_first_match:
  "(\<forall>i. i < length (Files d) \<and> Original (Files d ! i) = original
         \<and> (\<forall>j < i. Original (Files d ! j) \<noteq> original)
       \<longrightarrow> File d original = ((Files d ! i, True), d))
   \<and> ((\<forall>file \<in> set (Files d). Original file \<noteq> original)
       \<longrightarrow> File d original = ((zero_File, False), d))
   \<and> snd (File d original) = d"
proof (intro conjI allI impI)
  fix i
  assume a: "i < length (Files d) \<and> Original (Files d ! i) = original
    \<and> (\<forall>j < i. Original (Files d ! j) \<noteq> original)"
  then have "find (\<lambda>file. Original file = original) (Files d) = Some (Files d ! i)"
    by (auto simp add: find_Some_iff)
  then show "File d original = ((Files d ! i, True), d)"
    by (simp add: File_def File_loop_find)
next
  assume "\<forall>file \<in> set (Files d). Original file \<noteq> original"
  then have "find (\<lambda>file. Original file = original) (Files d) = None"
    by (simp add: find_None_iff)
  then show "File d original = ((zero_File, False), d)"
    by (simp add: File_def File_loop_find)
next
  show "snd (File d original) = d" by (simp add: File_def)
qed

theorem File_first_match_witness:
  "(1::nat) < length (Files doc_complete)
   \<and> Original (Files doc_complete ! 1) = ''Two.strings''
   \<and> Original (Files doc_complete ! 0) \<noteq> ''Two.strings''
   \<and> File doc_complete ''Two.strings'' = ((Files doc_complete ! 1, True), doc_complete)
   \<and> list_all (\<lambda>file. Original file \<noteq> ''Unknown.strings'') (Files doc_complete)
   \<and> File doc_complete ''Unknown.strings'' = ((zero_File, False), doc_complete)"
  using File_first_match [of doc_complete "''Two.strings''", THEN conjunct1, rule_format, of 1]
    File_first_match [of doc_complete "''Unknown.strings''", THEN conjunct2, THEN conjunct1]
  by (simp add: doc_complete_def)

subsection \<open>Rendering a ValidationError\<close>

text \<open>
  Claim C7. For each of the ten defined codes, \<^verbatim>\<open>Error\<close> renders a ValidationError with
  that code as the name of the code, a colon, a space and the message; the rendering
  never starts with the placeholder \<^verbatim>\<open>Unknown\<close>.
\<close>

theorem Error_names_code:
  "Error \<lparr>Code = UnsupportedVersion, Message = m\<rparr> = ''UnsupportedVersion: '' @ m
   \<and> Error \<lparr>Code = MissingOriginalAttribute, Message = m\<rparr> = ''MissingOriginalAttribute: '' @ m
   \<and> Error \<lparr>Code = MissingSourceLanguage, Message = m\<rparr> = ''MissingSourceLanguage: '' @ m
   \<and> Error \<lparr>Code = MissingTargetLanguage, Message = m\<rparr> = ''MissingTargetLanguage: '' @ m
   \<and> Error \<lparr>Code = UnsupportedDatatype, Message = m\<rparr> = ''UnsupportedDatatype: '' @ m
   \<and> Error \<lparr>Code = InconsistentSourceLanguage, Message = m\<rparr>
       = ''InconsistentSourceLanguage: '' @ m
   \<and> Error \<lparr>Code = InconsistentTargetLanguage, Message = m\<rparr>
       = ''InconsistentTargetLanguage: '' @ m
   \<and> Error \<lparr>Code = MissingTransUnitID, Message = m\<rparr> = ''MissingTransUnitID: '' @ m
   \<and> Error \<lparr>Code = MissingTransUnitSource, Message = m\<rparr> = ''MissingTransUnitSource: '' @ m
   \<and> Error \<lparr>Code = MissingTransUnitTarget, Message = m\<rparr> = ''MissingTransUnitTarget: '' @ m
   \<and> \<not> prefix ''Unknown'' (Error \<lparr>Code = UnsupportedVersion, Message = m\<rparr>)
   \<and> \<not> prefix ''Unknown'' (Error \<lparr>Code = MissingOriginalAttribute, Message = m\<rparr>)
   \<and> \<not> prefix ''Unknown'' (Error \<lparr>Code = MissingSourceLanguage, Message = m\<rparr>)
   \<and> \<not> prefix ''Unknown'' (Error \<lparr>Code = MissingTargetLanguage, Message = m\<rparr>)
   \<and> \<not> prefix ''Unknown'' (Error \<lparr>Code = UnsupportedDatatype, Message = m\<rparr>)
   \<and> \<not> prefix ''Unknown'' (Error \<lparr>Code = InconsistentSourceLanguage, Message = m\<rparr>)
   \<and> \<not> prefix ''Unknown'' (Error \<lparr>Code = InconsistentTargetLanguage, Message = m\<rparr>)
   \<and> \<not> prefix ''Unknown'' (Error \<lparr>Code = MissingTransUnitID, Message = m\<rparr>)
   \<and> \<not> prefix ''Unknown'' (Error \<lparr>Code = MissingTransUnitSource, Message = m\<rparr>)
   \<and> \<not> prefix ''Unknown'' (Error \<lparr>Code = MissingTransUnitTarget, Message = m\<rparr>)"
  by (simp add: Error_def code_defs)

text \<open>The placeholder is what a code outside the ten constants is rendered with.\<close>

lemma Error_undefined_code: "Error \<lparr>Code = 10, Message = m\<rparr> = ''Unknown: '' @ m"
  by (simp add: Error_def code_defs)

subsection \<open>NewDocument\<close>

text \<open>
  Claim C8. For all strings \<open>sl\<close> and \<open>tl'\<close>, \<^verbatim>\<open>NewDocument\<close> returns a Document of
  version 1.2 with exactly one File, whose datatype is plaintext, whose source and target
  language are \<open>sl\<close> and \<open>tl'\<close>, and whose Body is empty (its original attribute and its
  header are the zero values). The constructor has no error result and checks nothing:
  it is defined for all strings, the empty ones included.
\<close>

theorem NewDocument_shape:
  "Version (NewDocument sl tl') = ''1.2''
   \<and> length (Files (NewDocument sl tl')) = 1
   \<and> Files (NewDocument sl tl') =
       [\<lparr>Original = [], SourceLanguage = sl, Datatype = ''plaintext'', TargetLanguage = tl',
         Header = \<lparr>Tool = \<lparr>ToolID = [], ToolName = [], ToolVersion = [], BuildNum = []\<rparr>\<rparr>,
         Body = \<lparr>TransUnits = []\<rparr>\<rparr>]
   \<and> Datatype (hd (Files (NewDocument sl tl'))) = ''plaintext''
   \<and> SourceLanguage (hd (Files (NewDocument sl tl'))) = sl
   \<and> TargetLanguage (hd (Files (NewDocument sl tl'))) = tl'
   \<and> TransUnits (Body (hd (Files (NewDocument sl tl')))) = []"
  by (simp add: NewDocument_def zero_Header_def zero_Tool_def zero_Body_def)

text \<open>
  Claim C10. Whatever the language tags, \<^verbatim>\<open>Validate\<close> on a freshly constructed Document
  reports \<^verbatim>\<open>MissingOriginalAttribute\<close> for its File first (followed by the reports for an
  empty source or target language, if any), so its result is never empty. Yet
  \<^verbatim>\<open>AddTransUnit\<close> succeeds on that Document and gives the new TransUnit the id 0, and
  the Document encodes: \<^verbatim>\<open>xml.Marshal\<close> returns its bytes and no error, and \<^verbatim>\<open>ToFile\<close>
  hands them, after the XML declaration, to the file system and returns what the file
  system answers.
\<close>

theorem NewDocument_never_clean:
  "Validate (NewDocument sl tl') =
     (Inr (\<lparr>Code = MissingOriginalAttribute, Message = ''File #0 is missing 'original' attribute''\<rparr>
        # (if sl = [] then
             [\<lparr>Code = MissingSourceLanguage,
               Message = ''File '' @ quoted [] @ '' is missing 'source-language' attribute''\<rparr>]
           else [])
        @ (if tl' = [] then
             [\<lparr>Code = MissingTargetLanguage,
               Message = ''File '' @ quoted [] @ '' is missing 'target-language' attribute''\<rparr>]
           else [])),
      NewDocument sl tl')
   \<and> fst (Validate (NewDocument sl tl')) \<noteq> Inr []
   \<and> AddTransUnit (NewDocument sl tl') source [] =
       Returns None
         (document_with sl tl' [\<lparr>ID = ''0'', Source = source, Target = [], Note = []\<rparr>])
   \<and> Marshal \<lparr>Document = NewDocument sl tl',
         Xmlns = ''urn:oasis:names:tc:xliff:document:1.2'',
         Xsi = ''http://www.w3.org/2001/XMLSchema-instance'',
         SchemaLocation = ''urn:oasis:names:tc:xliff:document:1.2 http://docs.oasis-open.org/xliff/v1.2/os/xliff-core-1.2-strict.xsd''\<rparr>
       = Inr (fresh_xliff sl tl')
   \<and> ToFile WriteFile (NewDocument sl tl') path =
       (WriteFile path (xml_Header @ fresh_xliff sl tl') 436, NewDocument sl tl')"
proof -
  have "Validate (NewDocument sl tl') =
     (Inr (\<lparr>Code = MissingOriginalAttribute, Message = ''File #0 is missing 'original' attribute''\<rparr>
        # (if sl = [] then
             [\<lparr>Code = MissingSourceLanguage,
               Message = ''File '' @ quoted [] @ '' is missing 'source-language' attribute''\<rparr>]
           else [])
        @ (if tl' = [] then
             [\<lparr>Code = MissingTargetLanguage,
               Message = ''File '' @ quoted [] @ '' is missing 'target-language' attribute''\<rparr>]
           else [])),
      NewDocument sl tl')"
    by (simp add: Validate_def index_def Let_def NewDocument_def zero_Body_def
        format_nat.simps digit_char_def)
  then show ?thesis
    using AddTransUnit_fresh [of sl tl' source] Marshal_fresh [of sl tl']
      ToFile_fresh [of WriteFile sl tl' path]
    by simp
qed

subsection \<open>AddTransUnit\<close>

text \<open>
  Claim C3, as amended. Let the Document have at least one File, let \<open>n\<close> be \<open>- 1\<close> if
  the Body of the last File is empty and otherwise an integer whose decimal rendering is
  the id of the last TransUnit of that Body, let \<open>n\<close> and \<open>n + 1\<close> fit a 64-bit \<^verbatim>\<open>int\<close>
  (\<open>- 2^63 \<le> n < 2^63 - 1\<close>), and let every option be a function (not nil) that returns
  and leaves the Document and the id and the source of the TransUnit as they are (as
  \<^verbatim>\<open>WithNote\<close> and \<^verbatim>\<open>WithTarget\<close> do). Then \<^verbatim>\<open>AddTransUnit\<close> succeeds and appends to the
  Body of the last File one TransUnit, the one the options leave, whose id is the decimal
  rendering of \<open>n + 1\<close> and whose source is the given text; nothing else in the Document
  changes. On a fresh \<^verbatim>\<open>NewDocument\<close> the first TransUnit added gets the id 0 and the
  second the id 1.
\<close>

theorem AddTransUnit_next_id:
  "(Files d \<noteq> []
    \<and> (TransUnits (Body (last (Files d))) = [] \<and> n = - 1
       \<or> TransUnits (Body (last (Files d))) \<noteq> []
         \<and> ID (last (TransUnits (Body (last (Files d))))) = format_int n)
    \<and> - (2 ^ 63) \<le> n \<and> n < 2 ^ 63 - 1
    \<and> (\<forall>opt \<in> set opts. keeps_id_source_and_document opt)
    \<longrightarrow> (\<exists>tu.
          apply_opts opts
            \<lparr>ID = format_int (n + 1), Source = source, Target = [], Note = []\<rparr> d
            = Returns tu d
          \<and> AddTransUnit d source opts =
              Returns None
                (d\<lparr>Files := butlast (Files d) @ [append_unit (last (Files d)) tu]\<rparr>)
          \<and> ID tu = format_int (n + 1) \<and> Source tu = source))
   \<and> AddTransUnit (NewDocument sl tl') s1 [] =
       Returns None
         (document_with sl tl' [\<lparr>ID = ''0'', Source = s1, Target = [], Note = []\<rparr>])
   \<and> AddTransUnit (document_with sl tl' [\<lparr>ID = ''0'', Source = s1, Target = [], Note = []\<rparr>]) s2 [] =
       Returns None
         (document_with sl tl'
            [\<lparr>ID = ''0'', Source = s1, Target = [], Note = []\<rparr>,
             \<lparr>ID = ''1'', Source = s2, Target = [], Note = []\<rparr>])"
  using next_id_kept [of d n opts source] AddTransUnit_fresh [of sl tl' s1 s2]
  by blast

theorem AddTransUnit_next_id_witness:
  "Files (doc_last_id ''41'') \<noteq> []
   \<and> TransUnits (Body (last (Files (doc_last_id ''41'')))) \<noteq> []
   \<and> ID (last (TransUnits (Body (last (Files (doc_last_id ''41'')))))) = format_int 41
   \<and> - (2 ^ 63) \<le> (41 :: int) \<and> (41 :: int) < 2 ^ 63 - 1
   \<and> keeps_id_source_and_document (WithNote ''a note'')
   \<and> keeps_id_source_and_document (WithTarget ''Ziel'')
   \<and> AddTransUnit (doc_last_id ''41'') ''Quelle'' [WithNote ''a note'', WithTarget ''Ziel''] =
       Returns None
         (document_with ''de'' ''en''
            [\<lparr>ID = ''41'', Source = ''x'', Target = ''y'', Note = []\<rparr>,
             \<lparr>ID = ''42'', Source = ''Quelle'', Target = ''Ziel'', Note = ''a note''\<rparr>])"
proof -
  have keeps: "keeps_id_source_and_document (WithNote ''a note'')"
    "keeps_id_source_and_document (WithTarget ''Ziel'')"
    by (rule WithNote_keeps, rule WithTarget_keeps)
  have "\<exists>tu.
      apply_opts [WithNote ''a note'', WithTarget ''Ziel'']
        \<lparr>ID = format_int (41 + 1), Source = ''Quelle'', Target = [], Note = []\<rparr>
        (doc_last_id ''41'')
        = Returns tu (doc_last_id ''41'')
      \<and> AddTransUnit (doc_last_id ''41'') ''Quelle'' [WithNote ''a note'', WithTarget ''Ziel''] =
          Returns None
            ((doc_last_id ''41'')\<lparr>Files := butlast (Files (doc_last_id ''41''))
               @ [append_unit (last (Files (doc_last_id ''41''))) tu]\<rparr>)
      \<and> ID tu = format_int (41 + 1) \<and> Source tu = ''Quelle''"
    using AddTransUnit_next_id [of "doc_last_id ''41''" 41
        "[WithNote ''a note'', WithTarget ''Ziel'']" "''Quelle''", THEN conjunct1] keeps
    by (simp add: doc_last_id_def document_with_def format_int_def format_nat.simps
        digit_char_def)
  then have added:
    "AddTransUnit (doc_last_id ''41'') ''Quelle'' [WithNote ''a note'', WithTarget ''Ziel''] =
       Returns None
         (document_with ''de'' ''en''
            [\<lparr>ID = ''41'', Source = ''x'', Target = ''y'', Note = []\<rparr>,
             \<lparr>ID = ''42'', Source = ''Quelle'', Target = ''Ziel'', Note = ''a note''\<rparr>])"
    by (auto simp add: doc_last_id_def document_with_def format_int_def format_nat.simps
        digit_char_def WithNote_def WithTarget_def append_unit_def)
  show ?thesis
    using keeps added
    by (simp add: doc_last_id_def document_with_def format_int_def format_nat.simps
        digit_char_def)
qed

text \<open>
  Claim C3 as it is written speaks of every integer \<open>n\<close> and of every list of options.
  It fails at each of these. When the last id is the rendering of \<open>2^63 - 1\<close>, the addition
  \<^verbatim>\<open>numId + 1\<close> wraps around and the new id is the rendering of \<open>- 2^63\<close>, not of \<open>2^63\<close>.
  When the last id is the rendering of \<open>- 2^63 - 1\<close>, \<^verbatim>\<open>Atoi\<close> reports it out of range and
  \<^verbatim>\<open>AddTransUnit\<close> returns an error. An option may write the id of the new TransUnit,
  after the computed one was set. An option may append a File to the Document, and the
  new TransUnit then goes to that File and not to the one that was last. And a nil
  option, an option that panics and an option that does not return keep \<^verbatim>\<open>AddTransUnit\<close>
  from returning.
\<close>

theorem AddTransUnit_next_id_counterexample:
  "format_int 9223372036854775807 = ''9223372036854775807''
   \<and> AddTransUnit (doc_last_id ''9223372036854775807'') ''s'' [] =
       Returns None
         (document_with ''de'' ''en''
            [\<lparr>ID = ''9223372036854775807'', Source = ''x'', Target = ''y'', Note = []\<rparr>,
             \<lparr>ID = ''-9223372036854775808'', Source = ''s'', Target = [], Note = []\<rparr>])
   \<and> format_int (9223372036854775807 + 1) = ''9223372036854775808''
   \<and> format_int (- 9223372036854775809) = ''-9223372036854775809''
   \<and> AddTransUnit (doc_last_id ''-9223372036854775809'') ''s'' [] =
       Returns (Some (errorString ''last TransUnit ID is not a number:-9223372036854775809''))
         (doc_last_id ''-9223372036854775809'')
   \<and> format_int (- 1 + 1) = ''0''
   \<and> AddTransUnit (NewDocument ''de'' ''en'') ''s'' [set_id_option ''x''] =
       Returns None
         (document_with ''de'' ''en'' [\<lparr>ID = ''x'', Source = ''s'', Target = [], Note = []\<rparr>])
   \<and> AddTransUnit (NewDocument ''de'' ''en'') ''s'' [add_file_option] =
       Returns None
         \<lparr>Version = ''1.2'',
          Files = Files (NewDocument ''de'' ''en'')
            @ [zero_File\<lparr>Body := \<lparr>TransUnits =
                 [\<lparr>ID = ''0'', Source = ''s'', Target = [], Note = []\<rparr>]\<rparr>\<rparr>]\<rparr>
   \<and> AddTransUnit (NewDocument ''de'' ''en'') ''s'' [NilFunc] =
       Panics NilDereference (NewDocument ''de'' ''en'')
   \<and> AddTransUnit (NewDocument ''de'' ''en'') ''s'' [panic_option] =
       Panics (PanicValue ''stop'') (NewDocument ''de'' ''en'')
   \<and> AddTransUnit (NewDocument ''de'' ''en'') ''s'' [loop_option] = NoReturn"
  by (simp add: doc_last_id_def document_with_def NewDocument_def zero_Body_def
      format_nat.simps digit_char_def AddTransUnit_def lastId_def Atoi_def is_digit_def
      digit_val_def Itoa_def format_int_def set_id_option_def add_file_option_def
      panic_option_def loop_option_def index_def zero_File_def)

text \<open>
  Claim C5, as amended. \<^verbatim>\<open>AddTransUnit\<close> returns an error exactly when the Document
  has no File, or the last File has a last TransUnit whose id is not parseable as an
  integer that fits a 64-bit \<^verbatim>\<open>int\<close>: an optional sign and at least one decimal digit,
  writing a number from \<open>- 2^63\<close> to \<open>2^63 - 1\<close>. In the first case the error is the one of
  \<^verbatim>\<open>errors.New("document does not contain a file")\<close>, in the second the one that says that
  the last id is not a number, followed by the id. Whenever an error is returned the
  Document is as it was before the call. The decimal rendering of an integer is
  parseable in this sense exactly when the integer lies in that range.
\<close>

theorem AddTransUnit_error_iff:
  "((\<exists>e d'. AddTransUnit d source opts = Returns (Some e) d') =
      (Files d = []
       \<or> (Files d \<noteq> [] \<and> TransUnits (Body (last (Files d))) \<noteq> []
          \<and> \<not> parseable_as_int (ID (last (TransUnits (Body (last (Files d)))))))))
   \<and> (Files d = [] \<longrightarrow>
        AddTransUnit d source opts =
          Returns (Some (errorString ''document does not contain a file'')) d)
   \<and> (Files d \<noteq> [] \<and> TransUnits (Body (last (Files d))) \<noteq> []
        \<and> \<not> parseable_as_int (ID (last (TransUnits (Body (last (Files d)))))) \<longrightarrow>
        AddTransUnit d source opts =
          Returns (Some (errorString (''last TransUnit ID is not a number:''
             @ ID (last (TransUnits (Body (last (Files d)))))))) d)
   \<and> (\<forall>e d'. AddTransUnit d source opts = Returns (Some e) d' \<longrightarrow> d' = d)
   \<and> parseable_as_int (format_int n) = (- (2 ^ 63) \<le> n \<and> n < 2 ^ 63)"
proof -
  have lit: "parseable_as_int (format_int n) = (- (2 ^ 63) \<le> n \<and> n < 2 ^ 63)"
    by (simp add: parseable_format_int fits_int_def)
  show ?thesis
  proof (cases "Files d = []")
    case True
    then show ?thesis using lit by (simp add: AddTransUnit_no_files)
  next
    case files: False
    show ?thesis
    proof (cases "TransUnits (Body (last (Files d))) = []")
      case True
      then have "lastId d = (''-1'', True)" using files by (simp add: lastId_eq)
      then show ?thesis
        using files True lit
          AddTransUnit_good_id [OF files _ Atoi_sentinel, of True source opts]
        by (simp add: finish_not_error)
    next
      case units: False
      then have l: "lastId d = (ID (last (TransUnits (Body (last (Files d))))), True)"
        using files by (simp add: lastId_eq)
      show ?thesis
      proof (cases "Atoi (ID (last (TransUnits (Body (last (Files d))))))")
        case None
        then have "\<not> parseable_as_int (ID (last (TransUnits (Body (last (Files d))))))"
          by (simp add: Atoi_None_iff)
        then show ?thesis
          using files units lit AddTransUnit_bad_id [OF files l None, of source opts] by simp
      next
        case (Some numId)
        then have "parseable_as_int (ID (last (TransUnits (Body (last (Files d))))))"
          using Atoi_None_iff [of "ID (last (TransUnits (Body (last (Files d)))))"] by simp
        then show ?thesis
          using files units lit AddTransUnit_good_id [OF files l Some, of source opts]
          by (simp add: finish_not_error)
      qed
    qed
  qed
qed

theorem AddTransUnit_error_iff_witness:
  "Files doc_without_files = []
   \<and> AddTransUnit doc_without_files ''s'' [] =
       Returns (Some (errorString ''document does not contain a file'')) doc_without_files
   \<and> Files (doc_last_id ''abc'') \<noteq> []
   \<and> TransUnits (Body (last (Files (doc_last_id ''abc'')))) \<noteq> []
   \<and> \<not> parseable_as_int (ID (last (TransUnits (Body (last (Files (doc_last_id ''abc''))))))) 
   \<and> AddTransUnit (doc_last_id ''abc'') ''s'' [WithTarget ''t''] =
       Returns (Some (errorString ''last TransUnit ID is not a number:abc'')) (doc_last_id ''abc'')
   \<and> parseable_as_int (ID (last (TransUnits (Body (last (Files (doc_last_id ''+07'')))))))
   \<and> AddTransUnit (doc_last_id ''+07'') ''s'' [] =
       Returns None
         (document_with ''de'' ''en''
            [\<lparr>ID = ''+07'', Source = ''x'', Target = ''y'', Note = []\<rparr>,
             \<lparr>ID = ''8'', Source = ''s'', Target = [], Note = []\<rparr>])
   \<and> parseable_as_int (format_int (- 9223372036854775808))
   \<and> \<not> parseable_as_int (format_int 9223372036854775808)"
  using AddTransUnit_error_iff [of doc_without_files "''s''" "[]" 0]
    AddTransUnit_error_iff [of "doc_last_id ''abc''" "''s''" "[WithTarget ''t'']" 0]
    AddTransUnit_error_iff [of "doc_last_id ''+07''" "''s''" "[]" "- 9223372036854775808"]
    AddTransUnit_error_iff [of "doc_last_id ''+07''" "''s''" "[]" "9223372036854775808"]
  by (simp add: doc_without_files_def doc_last_id_def document_with_def parseable_as_int_def
      int_of_text_def split_sign_def is_digit_def digit_val_def decimal_value_def fits_int_def
      AddTransUnit_def lastId_def Atoi_def Itoa_def format_int_def format_nat.simps
      digit_char_def index_def)

text \<open>
  Claim C5 as it is written speaks of an id that is not parseable as an integer. The
  rendering of the integer \<open>2^63\<close> is one, and with it as the last id \<^verbatim>\<open>AddTransUnit\<close>
  returns the error that the last id is not a number.
\<close>

theorem AddTransUnit_error_iff_counterexample:
  "format_int 9223372036854775808 = ''9223372036854775808''
   \<and> int_of_text ''9223372036854775808'' = Some 9223372036854775808
   \<and> AddTransUnit (doc_last_id ''9223372036854775808'') ''s'' [] =
       Returns (Some (errorString ''last TransUnit ID is not a number:9223372036854775808''))
         (doc_last_id ''9223372036854775808'')"
  by (simp add: doc_last_id_def document_with_def format_nat.simps digit_char_def
      AddTransUnit_def lastId_def Atoi_def is_digit_def digit_val_def format_int_def
      int_of_text_def split_sign_def decimal_value_def)

end
